theory Spec2Isabelle
  imports Complex_Main
begin

section \<open>Data model\<close>

text \<open>
  The backend keeps its documents in MongoDB collections. Object ids are compared through
  their string form (\<open>toString()\<close>), so an id is a string here. Dates are millisecond
  counts, as \<open>Date.now()\<close> returns them. Only the fields that the registration,
  check-in, team, attendance and certificate code reads or writes are kept.
\<close>

type_synonym oid = string
type_synonym time = int

text \<open>
  A \<open>Number\<close> field that the schema does not require, as a stored document can hold
  it: absent (read as \<open>undefined\<close>), \<open>null\<close>, or a number.
\<close>

datatype jsnum = Undefined | Null | Num int

text \<open>
  The relational operators of JavaScript with such a value on the right: \<open>undefined\<close>
  converts to NaN, and every comparison with NaN is false; \<open>null\<close> converts to 0.
\<close>

fun js_lt :: "int \<Rightarrow> jsnum \<Rightarrow> bool" where
  "js_lt a Undefined = False"
| "js_lt a Null = (a < 0)"
| "js_lt a (Num b) = (a < b)"

fun js_ge :: "int \<Rightarrow> jsnum \<Rightarrow> bool" where
  "js_ge a Undefined = False"
| "js_ge a Null = (a \<ge> 0)"
| "js_ge a (Num b) = (a \<ge> b)"

text \<open>\<open>m - 1\<close>: NaN for \<open>undefined\<close> (kept as \<^const>\<open>Undefined\<close>), \<open>-1\<close> for \<open>null\<close>.\<close>

fun js_pred :: "jsnum \<Rightarrow> jsnum" where
  "js_pred Undefined = Undefined"
| "js_pred Null = Num (- 1)"
| "js_pred (Num b) = Num (b - 1)"

datatype role = Student | Organizer | Admin

record user =
  uid :: oid
  name :: string
  email :: string
  role :: role
  points :: int

datatype evstatus = Draft | EvPending | Approved | EvRejected | EvActive | EvCompleted | EvCancelled

text \<open>
  \<open>registrationFee\<close> has the validator \<open>min: 0\<close> and the default 0, so it is a natural
  number here. \<open>maxParticipants\<close> is not required and has no default.
\<close>

record event =
  estatus :: evstatus
  startDate :: time
  endDate :: time
  registrationDeadline :: time
  organizer :: oid
  coOrganizers :: "oid list"
  maxParticipants :: jsnum
  currentParticipants :: int
  registrationFee :: nat
  isTeamEvent :: bool
  teamSizeMin :: int
  teamSizeMax :: int

datatype regstatus = Pending | Confirmed | Cancelled | Waitlisted | CheckedIn | Completed

datatype paystatus = PayPending | PayCompleted | PayFailed | PayRefunded | NotRequired

datatype checkin_method = QrCode | Manual | SelfCheckin

record team_member =
  tm_user :: oid
  tm_name :: string
  tm_email :: string
  tm_role :: string

text \<open>
  The team sub-record of a registration. A registration's \<open>teamInfo\<close> is \<open>None\<close>
  when the document was created without one: it then reads as not a lead, without code
  and without members.
\<close>

record team_info =
  isTeamLead :: bool
  teamName :: "string option"
  teamMembers :: "team_member list"
  teamCode :: "string option"
  maxMembers :: jsnum

record check_in =
  isCheckedIn :: bool
  checkInTime :: "time option"
  checkInMethod :: "checkin_method option"
  checkInLocation :: "string option"
  checkedInBy :: "oid option"

record session =
  sessionName :: string
  attended :: bool
  sessionCheckIn :: "time option"

text \<open>
  The two session counters are \<open>Number\<close> fields without a default: a new document
  has them \<open>undefined\<close>, and \<open>undefined + 1\<close> is NaN, which stays NaN under
  \<open>+ 1\<close> and \<open>- 1\<close>.
\<close>

datatype counter = NoCount | NaN | Count int

fun counter_add :: "counter \<Rightarrow> int \<Rightarrow> counter" where
  "counter_add NoCount k = NaN"
| "counter_add NaN k = NaN"
| "counter_add (Count n) k = Count (n + k)"

text \<open>
  The percentage is the quotient the pre-save hook computes (NaN when an operand is not a
  number); it is taken over the rationals here, the hook computes it in double
  precision. Its schema default is 0.
\<close>

datatype percentage = NotANumber | Percent rat

record attendance =
  sessions :: "session list"
  totalSessions :: counter
  attendedSessions :: counter
  attendancePercentage :: percentage

record qr_code =
  code :: string
  url :: string

record registration =
  rid :: oid
  reg_user :: oid
  reg_event :: oid
  rstatus :: regstatus
  paymentStatus :: paystatus
  amountPaid :: nat
  teamInfo :: "team_info option"
  checkIn :: check_in
  attendance :: attendance
  qrCode :: "qr_code option"

text \<open>
  The store: users and events by id, registrations in insertion order (\<open>findOne\<close>
  returns the first match). The last field is not a collection: it holds the properties
  that code has set on the function \<open>registrationSchema.methods.checkIn\<close>, an object
  shared by all documents; a property never set reads as \<open>undefined\<close>, which is
  \<open>False\<close> and \<open>None\<close> here (see the check-in route).
\<close>

record db =
  users :: "oid \<rightharpoonup> user"
  events :: "oid \<rightharpoonup> event"
  registrations :: "registration list"
  checkIn_fn :: check_in

text \<open>
  What a route answers: the JSON envelope with its HTTP status and message, or the error
  handed to \<open>next(error)\<close> when something threw.
\<close>

datatype response = Success nat string | Rejected nat string | Fault string

section \<open>Model methods\<close>

subsection \<open>Event\<close>

definition isRegistrationOpen :: "time \<Rightarrow> event \<Rightarrow> bool" where
  "isRegistrationOpen now e \<longleftrightarrow>
     now \<le> registrationDeadline e \<and> estatus e = Approved \<and>
     js_lt (currentParticipants e) (maxParticipants e)"

text \<open>
  The pre-save hook of the event schema: the error it hands to \<open>next\<close>, if any. Every
  \<open>save()\<close> of an event runs it and is rejected with that error.
\<close>

definition event_pre_save :: "event \<Rightarrow> string option" where
  "event_pre_save e =
     (if startDate e \<ge> endDate e then Some ''End date must be after start date''
      else if registrationDeadline e > startDate e
      then Some ''Registration deadline must be before or on start date''
      else if isTeamEvent e \<and> teamSizeMin e > teamSizeMax e
      then Some ''Minimum team size cannot be greater than maximum team size''
      else None)"

text \<open>\<open>this.save()\<close> of an event: the error, or the document as stored.\<close>

definition event_save :: "event \<Rightarrow> string + event" where
  "event_save e = (case event_pre_save e of Some err \<Rightarrow> Inl err | None \<Rightarrow> Inr e)"

definition addParticipant :: "event \<Rightarrow> string + event" where
  "addParticipant e =
     (if js_lt (currentParticipants e) (maxParticipants e)
      then event_save (e\<lparr>currentParticipants := currentParticipants e + 1\<rparr>)
      else Inl ''Event is full'')"

text \<open>With a counter of 0 or less the method returns the document without saving it.\<close>

definition removeParticipant :: "event \<Rightarrow> string + event" where
  "removeParticipant e =
     (if currentParticipants e > 0
      then event_save (e\<lparr>currentParticipants := currentParticipants e - 1\<rparr>)
      else Inr e)"

subsection \<open>User\<close>

definition addPoints :: "int \<Rightarrow> user \<Rightarrow> user" where
  "addPoints n u = u\<lparr>points := points u + n\<rparr>"

subsection \<open>Registration\<close>

text \<open>
  The attendance record of a new document: \<open>attendance\<close> is a nested path, so the
  object is always there, with an empty session list, no counters and the default
  percentage.
\<close>

definition new_attendance :: attendance where
  "new_attendance =
     \<lparr>sessions = [], totalSessions = NoCount, attendedSessions = NoCount,
      attendancePercentage = Percent 0\<rparr>"

text \<open>
  The pre-save hook of the registration schema; it runs on every save. Its guard
  \<open>totalSessions > 0\<close> is false when the counter is \<open>undefined\<close> or NaN.
\<close>

definition pre_save :: "registration \<Rightarrow> registration" where
  "pre_save r =
     (case totalSessions (attendance r) of
        Count t \<Rightarrow>
          if t > 0
          then r\<lparr>attendance := (attendance r)\<lparr>attendancePercentage :=
                  (case attendedSessions (attendance r) of
                     Count k \<Rightarrow> Percent (of_int k / of_int t * 100)
                   | _ \<Rightarrow> NotANumber)\<rparr>\<rparr>
          else r
      | _ \<Rightarrow> r)"

subsection \<open>Store access\<close>

text \<open>A document is saved under its \<open>_id\<close>, the key it was found by.\<close>

definition save_user :: "oid \<Rightarrow> user \<Rightarrow> db \<Rightarrow> db" where
  "save_user i u s = s\<lparr>users := (users s)(i \<mapsto> u)\<rparr>"

definition save_event :: "oid \<Rightarrow> event \<Rightarrow> db \<Rightarrow> db" where
  "save_event i e s = s\<lparr>events := (events s)(i \<mapsto> e)\<rparr>"

definition findById :: "oid \<Rightarrow> db \<Rightarrow> registration option" where
  "findById i s = find (\<lambda>r. rid r = i) (registrations s)"

definition findOne :: "oid \<Rightarrow> oid \<Rightarrow> db \<Rightarrow> registration option" where
  "findOne u e s = find (\<lambda>r. reg_user r = u \<and> reg_event r = e) (registrations s)"

definition create :: "registration \<Rightarrow> db \<Rightarrow> db" where
  "create r s = s\<lparr>registrations := registrations s @ [pre_save r]\<rparr>"

definition save_registration :: "registration \<Rightarrow> db \<Rightarrow> db" where
  "save_registration r s =
     s\<lparr>registrations :=
         map (\<lambda>x. if rid x = rid r then pre_save r else x) (registrations s)\<rparr>"

section \<open>Registration routes\<close>

subsection \<open>Team codes\<close>

text \<open>
  \<open>Date.now().toString(36).toUpperCase()\<close>: the digits of the clock value in base 36,
  in upper case.
\<close>

definition digit36 :: "nat \<Rightarrow> char" where
  "digit36 d = ''0123456789ABCDEFGHIJKLMNOPQRSTUVWXYZ'' ! d"

fun base36 :: "nat \<Rightarrow> string" where
  "base36 n = (if n < 36 then [digit36 n] else base36 (n div 36) @ [digit36 (n mod 36)])"

declare base36.simps [simp del]

definition newTeamCode :: "time \<Rightarrow> string" where
  "newTeamCode now =
     ''TEAM-'' @ (if now < 0 then CHR ''-'' # base36 (nat (- now)) else base36 (nat now))"

subsection \<open>POST /api/registrations\<close>

record team_request =
  req_teamName :: "string option"

record register_request =
  eventId :: oid
  req_teamInfo :: "team_request option"

definition default_checkIn :: check_in where
  "default_checkIn =
     \<lparr>isCheckedIn = False, checkInTime = None, checkInMethod = None,
      checkInLocation = None, checkedInBy = None\<rparr>"

text \<open>
  \<open>newId\<close> is the id the database gives the created document. \<open>qr\<close> is what
  \<open>generateEventQR\<close> returns, \<open>None\<close> when it throws. \<open>u\<close> is \<open>req.user\<close>, the
  document the authentication middleware loaded.
\<close>

definition register ::
  "time \<Rightarrow> oid \<Rightarrow> qr_code option \<Rightarrow> user \<Rightarrow> register_request \<Rightarrow> db \<Rightarrow> response \<times> db" where
  "register now newId qr u req s =
     (case events s (eventId req) of
        None \<Rightarrow> (Rejected 404 ''Event not found'', s)
      | Some e \<Rightarrow>
          if estatus e \<noteq> Approved
          then (Rejected 400 ''Event is not available for registration'', s)
          else if \<not> isRegistrationOpen now e
          then (Rejected 400 ''Registration for this event is closed'', s)
          else if findOne (uid u) (eventId req) s \<noteq> None
          then (Rejected 400 ''You are already registered for this event'', s)
          else if js_ge (currentParticipants e) (maxParticipants e)
          then (Rejected 400 ''Event is full'', s)
          else
            let registrationData =
                  \<lparr>rid = newId, reg_user = uid u, reg_event = eventId req,
                   rstatus = Confirmed,
                   paymentStatus = (if registrationFee e > 0 then PayPending else NotRequired),
                   amountPaid = registrationFee e,
                   teamInfo =
                     (case req_teamInfo req of
                        Some t \<Rightarrow>
                          if isTeamEvent e
                          then Some \<lparr>isTeamLead = True, teamName = req_teamName t,
                                     teamMembers = [], teamCode = Some (newTeamCode now),
                                     maxMembers = Num (teamSizeMax e)\<rparr>
                          else None
                      | None \<Rightarrow> None),
                   checkIn = default_checkIn, attendance = new_attendance,
                   qrCode = None\<rparr>;
                s1 = create registrationData s;
                s2 = (case qr of
                        Some q \<Rightarrow> save_registration (registrationData\<lparr>qrCode := Some q\<rparr>) s1
                      | None \<Rightarrow> s1)
            in (case addParticipant e of
                  Inl err \<Rightarrow> (Fault err, s2)
                | Inr e' \<Rightarrow>
                    (Success 201 ''Successfully registered for the event'',
                     save_user (uid u) (addPoints 10 u) (save_event (eventId req) e' s2))))"

subsection \<open>DELETE /api/registrations/:id\<close>

definition cancel :: "time \<Rightarrow> user \<Rightarrow> oid \<Rightarrow> db \<Rightarrow> response \<times> db" where
  "cancel now u i s =
     (case findById i s of
        None \<Rightarrow> (Rejected 404 ''Registration not found'', s)
      | Some r \<Rightarrow>
          if reg_user r \<noteq> uid u \<and> role u \<noteq> Admin
          then (Rejected 403 ''Not authorized to cancel this registration'', s)
          else
            (case events s (reg_event r) of
               None \<Rightarrow> (Fault ''TypeError'', s)
             | Some e \<Rightarrow>
                 if now \<ge> startDate e
                 then (Rejected 400 ''Cannot cancel registration after event has started'', s)
                 else
                   let s1 = save_registration (r\<lparr>rstatus := Cancelled\<rparr>) s
                   in (case removeParticipant e of
                         Inl err \<Rightarrow> (Fault err, s1)
                       | Inr e' \<Rightarrow>
                           (Success 200 ''Registration cancelled successfully'',
                            save_event (reg_event r) e' s1))))"

section \<open>QR payloads\<close>

text \<open>
  What \<open>JSON.parse\<close> produces. Numbers are integers here: the payload's only number is a
  millisecond timestamp.
\<close>

datatype json =
  JNull | JBool bool | JNum int | JStr string | JArr "json list" | JObj "(string \<times> json) list"

text \<open>
  Reading one of the payload's properties (\<open>type\<close>, \<open>eventId\<close>, \<open>timestamp\<close>,
  \<open>registrationId\<close>) of a value other than \<open>null\<close>: \<open>None\<close> is \<open>undefined\<close>, which
  is also what a number, a string, a boolean or an array gives for these names.
\<close>

definition get_prop :: "json \<Rightarrow> string \<Rightarrow> json option" where
  "get_prop v k = (case v of JObj kvs \<Rightarrow> map_of kvs k | _ \<Rightarrow> None)"

fun truthy :: "json \<Rightarrow> bool" where
  "truthy JNull = False"
| "truthy (JBool b) = b"
| "truthy (JNum n) = (n \<noteq> 0)"
| "truthy (JStr s) = (s \<noteq> [])"
| "truthy (JArr xs) = True"
| "truthy (JObj kvs) = True"

record parsed_qr =
  success :: bool
  data :: json
  qtype :: json

text \<open>
  \<open>JSON_parse\<close> is the built-in parser, \<open>None\<close> when it throws. Reading \<open>data.type\<close>
  of \<open>null\<close> throws inside the same \<open>try\<close>, so \<open>null\<close> takes the \<open>catch\<close> branch too.
\<close>

definition parseQRData :: "(string \<Rightarrow> json option) \<Rightarrow> string \<Rightarrow> parsed_qr" where
  "parseQRData JSON_parse qrString =
     (let plain = \<lparr>success = True, data = JObj [(''url'', JStr qrString)], qtype = JStr ''url''\<rparr>
      in case JSON_parse qrString of
           None \<Rightarrow> plain
         | Some JNull \<Rightarrow> plain
         | Some d \<Rightarrow>
             \<lparr>success = True, data = d,
              qtype = (case get_prop d ''type'' of
                         Some t \<Rightarrow> if truthy t then t else JStr ''unknown''
                       | None \<Rightarrow> JStr ''unknown'')\<rparr>)"

text \<open>
  The operand conversion of \<open>Date.now() - qrData.timestamp\<close>; \<open>None\<close> is NaN. How a
  string, an array or an object converts is left to \<open>conv\<close>.
\<close>

fun toNumber :: "(json \<Rightarrow> int option) \<Rightarrow> json option \<Rightarrow> int option" where
  "toNumber conv None = None"
| "toNumber conv (Some JNull) = Some 0"
| "toNumber conv (Some (JBool b)) = Some (if b then 1 else 0)"
| "toNumber conv (Some (JNum n)) = Some n"
| "toNumber conv (Some v) = conv v"

definition maxAge :: int where
  "maxAge = 24 * 60 * 60 * 1000"

datatype validation = Valid "json option" "json option" | Invalid string

definition validateCheckInQR ::
  "(json \<Rightarrow> int option) \<Rightarrow> time \<Rightarrow> json \<Rightarrow> oid \<Rightarrow> validation" where
  "validateCheckInQR conv now qrData expectedEventId =
     (case qrData of
        JNull \<Rightarrow> Invalid ''Invalid QR code format''
      | _ \<Rightarrow>
          if get_prop qrData ''type'' \<noteq> Some (JStr ''event-checkin'')
          then Invalid ''Invalid QR code type for check-in''
          else if get_prop qrData ''eventId'' \<noteq> Some (JStr expectedEventId)
          then Invalid ''QR code is for a different event''
          else if (case toNumber conv (get_prop qrData ''timestamp'') of
                     Some t \<Rightarrow> now - t > maxAge
                   | None \<Rightarrow> False)
          then Invalid ''QR code has expired''
          else Valid (get_prop qrData ''registrationId'') (get_prop qrData ''eventId''))"

section \<open>Check-in\<close>

text \<open>
  The registration schema declares \<open>checkIn\<close> twice: as a nested path holding the
  check-in record (\<open>isCheckedIn\<close>, \<open>checkInTime\<close>, ...) and as an instance method.
  A document has one property of that name, so \<open>registration.checkIn\<close> is either the
  stored record or the method, for the guard of the route, for the call in the route and
  for \<open>this.checkIn\<close> inside the method alike. Which of the two it is depends on how
  the library builds the document, so it is a parameter here. (Mongoose itself refuses a
  schema with a path and a method of one name when it compiles the model.)
\<close>

datatype binding = AsPath | AsMethod

text \<open>
  The guard \<open>registration.checkIn.isCheckedIn\<close>: the stored flag when the name is the
  path; a property of the shared function when the name is the method.
\<close>

definition already_checked_in :: "binding \<Rightarrow> db \<Rightarrow> registration \<Rightarrow> bool" where
  "already_checked_in b s r =
     (case b of
        AsPath \<Rightarrow> isCheckedIn (checkIn r)
      | AsMethod \<Rightarrow> isCheckedIn (checkIn_fn s))"

text \<open>
  The body of the method, run with \<open>this.checkIn\<close> being the method: the five
  assignments go to properties of the function, given and returned as \<open>fn\<close>; the
  document gets its status. The \<open>save()\<close> that ends the method is done by the caller.
\<close>

definition reg_checkIn ::
  "time \<Rightarrow> checkin_method \<Rightarrow> string \<Rightarrow> oid option \<Rightarrow> check_in \<Rightarrow> registration \<Rightarrow>
   check_in \<times> registration" where
  "reg_checkIn now m loc by fn r =
     (\<lparr>isCheckedIn = True, checkInTime = Some now, checkInMethod = Some m,
       checkInLocation = Some loc,
       checkedInBy = (case by of Some b \<Rightarrow> Some b | None \<Rightarrow> checkedInBy fn)\<rparr>,
      r\<lparr>rstatus := CheckedIn\<rparr>)"

record checkin_request =
  req_method :: "checkin_method option"
  req_location :: "string option"
  qrData :: "string option"

text \<open>
  The block of the route that validates the QR payload "if provided": the message it
  rejects with, or \<open>None\<close> when it lets the request through.
\<close>

definition qr_rejection ::
  "(string \<Rightarrow> json option) \<Rightarrow> (json \<Rightarrow> int option) \<Rightarrow> time \<Rightarrow> checkin_method \<Rightarrow>
   string option \<Rightarrow> oid \<Rightarrow> oid \<Rightarrow> string option" where
  "qr_rejection JSON_parse conv now m q evId regId =
     (case q of
        None \<Rightarrow> None
      | Some qs \<Rightarrow>
          if m = QrCode \<and> qs \<noteq> []
          then
            let parsedQR = parseQRData JSON_parse qs
            in if \<not> success parsedQR then Some ''Invalid QR code format''
               else
                 (case validateCheckInQR conv now (data parsedQR) evId of
                    Invalid msg \<Rightarrow> Some msg
                  | Valid registrationId _ \<Rightarrow>
                      if registrationId \<noteq> Some (JStr regId)
                      then Some ''QR code does not match this registration''
                      else None)
          else None)"

definition privileged :: "user \<Rightarrow> event \<Rightarrow> bool" where
  "privileged u e \<longleftrightarrow> organizer e = uid u \<or> uid u \<in> set (coOrganizers e) \<or> role u = Admin"

text \<open>
  The last two steps of the route, "Perform check-in" and "Award points for attendance".
  When \<open>checkIn\<close> is the stored record, calling it throws a TypeError (it is not a
  function) and the route hands the error on. When it is the method, the method runs,
  the document is saved with its new status, and the owner gets 20 points.
\<close>

definition perform_checkin ::
  "binding \<Rightarrow> time \<Rightarrow> checkin_method \<Rightarrow> string \<Rightarrow> user \<Rightarrow> registration \<Rightarrow> db \<Rightarrow>
   response \<times> db" where
  "perform_checkin b now m loc u r s =
     (case b of
        AsPath \<Rightarrow> (Fault ''TypeError'', s)
      | AsMethod \<Rightarrow>
          let (fn, r') = reg_checkIn now m loc (Some (uid u)) (checkIn_fn s) r;
              s1 = save_registration r' (s\<lparr>checkIn_fn := fn\<rparr>)
          in (case users s1 (reg_user r) of
                None \<Rightarrow> (Fault ''TypeError'', s1)
              | Some owner \<Rightarrow>
                  (Success 200 ''User checked in successfully'',
                   save_user (reg_user r) (addPoints 20 owner) s1)))"

definition checkin ::
  "binding \<Rightarrow> (string \<Rightarrow> json option) \<Rightarrow> (json \<Rightarrow> int option) \<Rightarrow> time \<Rightarrow> user \<Rightarrow> oid \<Rightarrow>
   checkin_request \<Rightarrow> db \<Rightarrow> response \<times> db" where
  "checkin b JSON_parse conv now u i req s =
     (case findById i s of
        None \<Rightarrow> (Rejected 404 ''Registration not found'', s)
      | Some r \<Rightarrow>
          (case events s (reg_event r) of
             None \<Rightarrow> (Fault ''TypeError'', s)
           | Some e \<Rightarrow>
               if \<not> privileged u e
               then (Rejected 403 ''Not authorized to check-in users for this event'', s)
               else if already_checked_in b s r
               then (Rejected 400 ''User is already checked in'', s)
               else
                 let m = (case req_method req of Some m \<Rightarrow> m | None \<Rightarrow> Manual);
                     loc = (case req_location req of Some l \<Rightarrow> l | None \<Rightarrow> [])
                 in (case qr_rejection JSON_parse conv now m (qrData req) (reg_event r) (rid r) of
                       Some msg \<Rightarrow> (Rejected 400 msg, s)
                     | None \<Rightarrow> perform_checkin b now m loc u r s)))"

section \<open>Teams\<close>

definition addTeamMember :: "team_member \<Rightarrow> registration \<Rightarrow> string + registration" where
  "addTeamMember memberData r =
     (let t = (case teamInfo r of
                 Some t \<Rightarrow> t
               | None \<Rightarrow> \<lparr>isTeamLead = False, teamName = None, teamMembers = [],
                           teamCode = None, maxMembers = Undefined\<rparr>)
      in if js_ge (int (length (teamMembers t))) (js_pred (maxMembers t))
         then Inl ''Team is full''
         else Inr (r\<lparr>teamInfo := Some (t\<lparr>teamMembers := teamMembers t @ [memberData]\<rparr>)\<rparr>))"

record join_request =
  join_teamCode :: string
  join_eventId :: oid

definition is_lead_of :: "string \<Rightarrow> oid \<Rightarrow> registration \<Rightarrow> bool" where
  "is_lead_of c e r \<longleftrightarrow>
     reg_event r = e \<and>
     (case teamInfo r of Some t \<Rightarrow> teamCode t = Some c \<and> isTeamLead t | None \<Rightarrow> False)"

definition findTeamLead :: "string \<Rightarrow> oid \<Rightarrow> db \<Rightarrow> registration option" where
  "findTeamLead c e s = find (is_lead_of c e) (registrations s)"

definition join_team :: "oid \<Rightarrow> user \<Rightarrow> join_request \<Rightarrow> db \<Rightarrow> response \<times> db" where
  "join_team newId u req s =
     (case findTeamLead (join_teamCode req) (join_eventId req) s of
        None \<Rightarrow> (Rejected 404 ''Team not found or invalid team code'', s)
      | Some lead \<Rightarrow>
          if findOne (uid u) (join_eventId req) s \<noteq> None
          then (Rejected 400 ''You are already registered for this event'', s)
          else
            (case teamInfo lead of
               None \<Rightarrow> (Fault ''TypeError'', s)
             | Some t \<Rightarrow>
                 if js_ge (int (length (teamMembers t)) + 1) (maxMembers t)
                 then (Rejected 400 ''Team is already full'', s)
                 else
                   (case events s (join_eventId req) of
                      None \<Rightarrow> (Fault ''TypeError'', s)
                    | Some e \<Rightarrow>
                        let memberRegistration =
                              \<lparr>rid = newId, reg_user = uid u, reg_event = join_eventId req,
                               rstatus = Confirmed,
                               paymentStatus =
                                 (if registrationFee e > 0 then PayPending else NotRequired),
                               amountPaid = registrationFee e,
                               teamInfo =
                                 Some \<lparr>isTeamLead = False, teamName = teamName t,
                                       teamMembers = [], teamCode = Some (join_teamCode req),
                                       maxMembers = Undefined\<rparr>,
                               checkIn = default_checkIn, attendance = new_attendance,
                               qrCode = None\<rparr>;
                            s1 = create memberRegistration s
                        in (case addTeamMember
                                   \<lparr>tm_user = uid u, tm_name = name u, tm_email = email u,
                                    tm_role = ''Member''\<rparr> lead of
                              Inl err \<Rightarrow> (Fault err, s1)
                            | Inr lead' \<Rightarrow>
                                let s2 = save_registration lead' s1
                                in (case addParticipant e of
                                      Inl err \<Rightarrow> (Fault err, s2)
                                    | Inr e' \<Rightarrow>
                                        (Success 201 ''Successfully joined the team'',
                                         save_user (uid u) (addPoints 10 u)
                                           (save_event (join_eventId req) e' s2)))))))"

section \<open>Session attendance\<close>

fun update_first :: "('a \<Rightarrow> bool) \<Rightarrow> ('a \<Rightarrow> 'a) \<Rightarrow> 'a list \<Rightarrow> 'a list" where
  "update_first P f [] = []"
| "update_first P f (x # xs) = (if P x then f x # xs else x # update_first P f xs)"

text \<open>
  \<open>markSessionAttendance\<close> works on the document and ends with \<open>this.save()\<close>,
  which runs the pre-save hook. Its opening guard \<open>if (!this.attendance)\<close>, which would
  set both counters to 0, never fires: the nested object is always there. So the counters
  are incremented and decremented from whatever the document holds.
\<close>

definition markSessionAttendance :: "time \<Rightarrow> string \<Rightarrow> bool \<Rightarrow> registration \<Rightarrow> registration" where
  "markSessionAttendance now sname att r =
     (let a = attendance r
      in pre_save (r\<lparr>attendance :=
           (case find (\<lambda>x. sessionName x = sname) (sessions a) of
              Some existingSession \<Rightarrow>
                a\<lparr>sessions :=
                    update_first (\<lambda>x. sessionName x = sname)
                      (\<lambda>x. x\<lparr>attended := att,
                              sessionCheckIn := (if att then Some now else sessionCheckIn x)\<rparr>)
                      (sessions a),
                  attendedSessions :=
                    (if att \<and> \<not> attended existingSession
                     then counter_add (attendedSessions a) 1
                     else if \<not> att \<and> attended existingSession
                     then counter_add (attendedSessions a) (- 1)
                     else attendedSessions a)\<rparr>
            | None \<Rightarrow>
                a\<lparr>sessions :=
                    sessions a @
                    [\<lparr>sessionName = sname, attended = att,
                      sessionCheckIn = (if att then Some now else None)\<rparr>],
                  totalSessions := counter_add (totalSessions a) 1,
                  attendedSessions :=
                    (if att then counter_add (attendedSessions a) 1
                     else attendedSessions a)\<rparr>)\<rparr>))"

text \<open>A sequence of calls, each with its clock value, session name and flag.\<close>

fun mark_all :: "(time \<times> string \<times> bool) list \<Rightarrow> registration \<Rightarrow> registration" where
  "mark_all [] r = r"
| "mark_all ((now, sname, att) # cs) r = mark_all cs (markSessionAttendance now sname att r)"

section \<open>Certificates\<close>

datatype certstatus = CertActive | Revoked | Expired | CertPending

record certificate =
  cert_id :: oid
  certificateId :: string
  cert_user :: oid
  cert_event :: oid
  verificationCode :: string
  cstatus :: certstatus
  revokedAt :: "time option"
  revokedBy :: "oid option"
  revokedReason :: "string option"

text \<open>The certificate collection; a saved document replaces the one with its \<open>_id\<close>.\<close>

definition save_certificate :: "certificate \<Rightarrow> certificate list \<Rightarrow> certificate list" where
  "save_certificate c cs = map (\<lambda>x. if cert_id x = cert_id c then c else x) cs"

definition revoke :: "time \<Rightarrow> oid \<Rightarrow> string \<Rightarrow> certificate \<Rightarrow> certificate list \<Rightarrow> certificate list" where
  "revoke now by reason c cs =
     save_certificate
       (c\<lparr>cstatus := Revoked, revokedAt := Some now, revokedBy := Some by,
          revokedReason := Some reason\<rparr>) cs"

definition verifyCertificate :: "string \<Rightarrow> certificate list \<Rightarrow> certificate option" where
  "verifyCertificate vc cs = find (\<lambda>c. verificationCode c = vc \<and> cstatus c = CertActive) cs"

section \<open>Consistency of an attendance record\<close>

text \<open>
  The counters are numbers and agree with the session list: every session name occurs
  once, \<open>totalSessions\<close> is the number of sessions and \<open>attendedSessions\<close> the number
  of those marked attended.
\<close>

definition att_ok :: "attendance \<Rightarrow> bool" where
  "att_ok a \<longleftrightarrow>
     distinct (map sessionName (sessions a)) \<and>
     totalSessions a = Count (int (length (sessions a))) \<and>
     attendedSessions a = Count (int (length (filter attended (sessions a))))"

text \<open>The names of the sessions recorded so far.\<close>

definition session_names :: "registration \<Rightarrow> string set" where
  "session_names r = sessionName ` set (sessions (attendance r))"

text \<open>A consistent record with at least one session and the percentage of the hook.\<close>

definition pct_ok :: "registration \<Rightarrow> bool" where
  "pct_ok r \<longleftrightarrow>
     att_ok (attendance r) \<and> sessions (attendance r) \<noteq> [] \<and>
     attendancePercentage (attendance r) =
       Percent (of_int (int (length (filter attended (sessions (attendance r)))))
                / of_int (int (length (sessions (attendance r)))) * 100)"

text \<open>A counter that is not a number: \<open>undefined\<close> or NaN.\<close>

definition no_number :: "counter \<Rightarrow> bool" where
  "no_number c \<longleftrightarrow> (case c of Count n \<Rightarrow> False | _ \<Rightarrow> True)"

section \<open>Consistency of team rosters\<close>






section \<open>Runs of requests\<close>






section \<open>Sample data\<close>

text \<open>
  A small store used to run the routes: an approved event with room for one participant
  and no fee, its organizer, and three students.
\<close>

definition ev1 :: event where
  "ev1 = \<lparr>estatus = Approved, startDate = 2000, endDate = 3000, registrationDeadline = 1000,
          organizer = ''org'', coOrganizers = [], maxParticipants = Num 1,
          currentParticipants = 0, registrationFee = 0, isTeamEvent = False,
          teamSizeMin = 1, teamSizeMax = 1\<rparr>"

definition userA :: user where
  "userA = \<lparr>uid = ''A'', name = ''Asha'', email = ''a@x.in'', role = Student, points = 0\<rparr>"

definition userB :: user where
  "userB = \<lparr>uid = ''B'', name = ''Bala'', email = ''b@x.in'', role = Student, points = 0\<rparr>"

definition userOrg :: user where
  "userOrg = \<lparr>uid = ''org'', name = ''Omar'', email = ''o@x.in'', role = Organizer, points = 0\<rparr>"

definition db0 :: db where
  "db0 = \<lparr>users = [''A'' \<mapsto> userA, ''B'' \<mapsto> userB, ''org'' \<mapsto> userOrg],
          events = [''E'' \<mapsto> ev1], registrations = [], checkIn_fn = default_checkIn\<rparr>"

definition reqE :: register_request where
  "reqE = \<lparr>eventId = ''E'', req_teamInfo = None\<rparr>"

definition regA :: registration where
  "regA = \<lparr>rid = ''r1'', reg_user = ''A'', reg_event = ''E'', rstatus = Confirmed,
           paymentStatus = NotRequired, amountPaid = 0, teamInfo = None,
           checkIn = default_checkIn, attendance = new_attendance, qrCode = None\<rparr>"

text \<open>The store after A has registered, and after A has cancelled.\<close>

definition db1 :: db where
  "db1 = \<lparr>users = [''A'' \<mapsto> userA\<lparr>points := 10\<rparr>, ''B'' \<mapsto> userB, ''org'' \<mapsto> userOrg],
          events = [''E'' \<mapsto> ev1\<lparr>currentParticipants := 1\<rparr>], registrations = [regA],
          checkIn_fn = default_checkIn\<rparr>"

definition db2 :: db where
  "db2 = \<lparr>users = [''A'' \<mapsto> userA\<lparr>points := 10\<rparr>, ''B'' \<mapsto> userB, ''org'' \<mapsto> userOrg],
          events = [''E'' \<mapsto> ev1], registrations = [regA\<lparr>rstatus := Cancelled\<rparr>],
          checkIn_fn = default_checkIn\<rparr>"

text \<open>
  The store after the organizer's check-in call for A at time 2100, when \<open>checkIn\<close> is
  the method: the status is set, the stored check-in record is as it was, and the record
  sits on the function.
\<close>

definition db3 :: db where
  "db3 = \<lparr>users = [''A'' \<mapsto> userA\<lparr>points := 30\<rparr>, ''B'' \<mapsto> userB, ''org'' \<mapsto> userOrg],
          events = [''E'' \<mapsto> ev1\<lparr>currentParticipants := 1\<rparr>],
          registrations = [regA\<lparr>rstatus := CheckedIn\<rparr>],
          checkIn_fn = \<lparr>isCheckedIn = True, checkInTime = Some 2100,
                         checkInMethod = Some Manual, checkInLocation = Some [],
                         checkedInBy = Some ''org''\<rparr>\<rparr>"

text \<open>
  A stand-in for \<open>JSON.parse\<close> on the payload texts used below: a check-in payload for
  registration r1 of event E issued at time 1000, a team-join payload, a check-in payload
  without a timestamp; any other text does not parse. No string, array or object
  converts to a number.
\<close>

definition qr_table :: "string \<Rightarrow> json option" where
  "qr_table q =
     (if q = ''checkin r1 E'' then
        Some (JObj [(''type'', JStr ''event-checkin''), (''registrationId'', JStr ''r1''),
                    (''eventId'', JStr ''E''), (''timestamp'', JNum 1000)])
      else if q = ''team-join'' then
        Some (JObj [(''type'', JStr ''team-join''), (''teamCode'', JStr ''TEAM-2S''),
                    (''eventId'', JStr ''E''), (''timestamp'', JNum 1000)])
      else if q = ''no timestamp'' then
        Some (JObj [(''type'', JStr ''event-checkin''), (''registrationId'', JStr ''r1''),
                    (''eventId'', JStr ''E'')])
      else None)"

definition no_parse :: "string \<Rightarrow> json option" where
  "no_parse q = None"

definition no_conv :: "json \<Rightarrow> int option" where
  "no_conv v = None"

definition self_req :: checkin_request where
  "self_req = \<lparr>req_method = Some SelfCheckin, req_location = None, qrData = None\<rparr>"

definition manual_req :: checkin_request where
  "manual_req = \<lparr>req_method = None, req_location = None, qrData = None\<rparr>"

definition qr_req :: "string \<Rightarrow> checkin_request" where
  "qr_req q = \<lparr>req_method = Some QrCode, req_location = None, qrData = Some q\<rparr>"

text \<open>Three certificates: one active, one expired, one pending.\<close>

definition certs0 :: "certificate list" where
  "certs0 =
     [\<lparr>cert_id = ''c1'', certificateId = ''CERT-1'', cert_user = ''A'', cert_event = ''E'',
       verificationCode = ''VC1'', cstatus = CertActive, revokedAt = None, revokedBy = None,
       revokedReason = None\<rparr>,
      \<lparr>cert_id = ''c2'', certificateId = ''CERT-2'', cert_user = ''B'', cert_event = ''E'',
       verificationCode = ''VC2'', cstatus = Expired, revokedAt = None, revokedBy = None,
       revokedReason = None\<rparr>,
      \<lparr>cert_id = ''c3'', certificateId = ''CERT-3'', cert_user = ''B'', cert_event = ''E'',
       verificationCode = ''VC3'', cstatus = CertPending, revokedAt = None, revokedBy = None,
       revokedReason = None\<rparr>]"

text \<open>Seven attendance calls on three sessions, with toggles and repetitions.\<close>

definition calls0 :: "(time \<times> string \<times> bool) list" where
  "calls0 = [(1, ''keynote'', True), (2, ''lab'', False), (3, ''lab'', True),
             (4, ''keynote'', True), (5, ''panel'', False), (6, ''lab'', False),
             (7, ''lab'', True)]"

text \<open>
  A team event with \<open>teamSize.max = 3\<close> and room for ten participants, four students,
  and the stores after the lead has registered at time 100 with the team name "Rocket"
  and after B and C have joined.
\<close>

definition evT :: event where
  "evT = \<lparr>estatus = Approved, startDate = 2000, endDate = 3000, registrationDeadline = 1000,
          organizer = ''org'', coOrganizers = [], maxParticipants = Num 10,
          currentParticipants = 0, registrationFee = 0, isTeamEvent = True,
          teamSizeMin = 1, teamSizeMax = 3\<rparr>"

definition userC :: user where
  "userC = \<lparr>uid = ''C'', name = ''Chitra'', email = ''c@x.in'', role = Student, points = 0\<rparr>"

definition userD :: user where
  "userD = \<lparr>uid = ''D'', name = ''Dev'', email = ''d@x.in'', role = Student, points = 0\<rparr>"



definition member_of :: "user \<Rightarrow> team_member" where
  "member_of u = \<lparr>tm_user = uid u, tm_name = name u, tm_email = email u, tm_role = ''Member''\<rparr>"

definition leadReg :: "team_member list \<Rightarrow> registration" where
  "leadReg ms =
     \<lparr>rid = ''t1'', reg_user = ''A'', reg_event = ''T'', rstatus = Confirmed,
      paymentStatus = NotRequired, amountPaid = 0,
      teamInfo = Some \<lparr>isTeamLead = True, teamName = Some ''Rocket'', teamMembers = ms,
                       teamCode = Some ''TEAM-2S'', maxMembers = Num 3\<rparr>,
      checkIn = default_checkIn, attendance = new_attendance, qrCode = None\<rparr>"

definition memberReg :: "oid \<Rightarrow> oid \<Rightarrow> registration" where
  "memberReg i u =
     \<lparr>rid = i, reg_user = u, reg_event = ''T'', rstatus = Confirmed,
      paymentStatus = NotRequired, amountPaid = 0,
      teamInfo = Some \<lparr>isTeamLead = False, teamName = Some ''Rocket'', teamMembers = [],
                       teamCode = Some ''TEAM-2S'', maxMembers = Undefined\<rparr>,
      checkIn = default_checkIn, attendance = new_attendance, qrCode = None\<rparr>"



definition dbT2 :: db where
  "dbT2 = \<lparr>users = [''A'' \<mapsto> userA\<lparr>points := 10\<rparr>, ''B'' \<mapsto> userB\<lparr>points := 10\<rparr>,
                    ''C'' \<mapsto> userC, ''D'' \<mapsto> userD],
           events = [''T'' \<mapsto> evT\<lparr>currentParticipants := 2\<rparr>],
           registrations = [leadReg [member_of userB], memberReg ''t2'' ''B''],
           checkIn_fn = default_checkIn\<rparr>"


text \<open>
  The store with the team of A and B after the organizer's check-in call for the lead's
  registration at time 2100, when \<open>checkIn\<close> is the method.
\<close>

definition dbT2c :: db where
  "dbT2c = \<lparr>users = [''A'' \<mapsto> userA\<lparr>points := 30\<rparr>, ''B'' \<mapsto> userB\<lparr>points := 10\<rparr>,
                     ''C'' \<mapsto> userC, ''D'' \<mapsto> userD],
            events = [''T'' \<mapsto> evT\<lparr>currentParticipants := 2\<rparr>],
            registrations = [(leadReg [member_of userB])\<lparr>rstatus := CheckedIn\<rparr>,
                             memberReg ''t2'' ''B''],
            checkIn_fn = \<lparr>isCheckedIn = True, checkInTime = Some 2100,
                           checkInMethod = Some Manual, checkInLocation = Some [],
                           checkedInBy = Some ''org''\<rparr>\<rparr>"




section \<open>Registration: creation, capacity, duplicates, cancellation\<close>

lemmas route_defs =
  register_def cancel_def isRegistrationOpen_def addParticipant_def removeParticipant_def
  event_save_def event_pre_save_def addPoints_def save_user_def save_event_def findById_def
  findOne_def create_def save_registration_def default_checkIn_def pre_save_def
  new_attendance_def

lemmas sample_defs =
  db0_def db1_def db2_def ev1_def userA_def userB_def userOrg_def reqE_def regA_def

text \<open>
  An event whose capacity is absent or \<open>null\<close> is never open: the comparison
  \<open>currentParticipants < maxParticipants\<close> in \<open>isRegistrationOpen\<close> is false.
\<close>

lemma unset_capacity_never_open:
  "maxParticipants e = Undefined \<or> (maxParticipants e = Null \<and> 0 \<le> currentParticipants e)
   \<Longrightarrow> \<not> isRegistrationOpen now e"
  by (auto simp: isRegistrationOpen_def)

text \<open>The hook does not look at the participant counter.\<close>

lemma event_pre_save_counter:
  "event_pre_save (e\<lparr>currentParticipants := n\<rparr>) = event_pre_save e"
  by (simp add: event_pre_save_def)




text \<open>
  The branch of the route that answers "Event is full" is never taken: whenever the
  capacity comparison would fire, \<open>isRegistrationOpen\<close> has already closed the
  registration.
\<close>

lemma register_never_event_is_full:
  "fst (register now newId qr u req s) \<noteq> Rejected 400 ''Event is full''"
  by (cases "maxParticipants (the (events s (eventId req)))")
     (auto simp: register_def isRegistrationOpen_def Let_def
           split: option.splits sum.splits)

lemma removeParticipant_not_negative:
  "removeParticipant e = Inr e' \<Longrightarrow> 0 \<le> currentParticipants e \<Longrightarrow>
   0 \<le> currentParticipants e'"
  by (auto simp: removeParticipant_def event_save_def split: if_splits option.splits)

text \<open>
  C2. The scenario of the claim, run on the routes: event E has \<open>maxParticipants = 1\<close>
  and no fee. A registers: success, the counter is 1, A's points go from 0 to 10.
  B registers: rejected, and the message is "Registration for this event is closed",
  not "Event is full". A cancels before the start: success, the registration is
  \<open>cancelled\<close>, the counter is 0 again, A still has 10 points.
\<close>

theorem scenario_full_event:
  "register 500 ''r1'' None userA reqE db0
     = (Success 201 ''Successfully registered for the event'', db1)
   \<and> map_option currentParticipants (events db1 ''E'') = Some 1
   \<and> map_option points (users db0 ''A'') = Some 0
   \<and> map_option points (users db1 ''A'') = Some 10
   \<and> register 600 ''r2'' None userB reqE db1
     = (Rejected 400 ''Registration for this event is closed'', db1)
   \<and> fst (register 600 ''r2'' None userB reqE db1) \<noteq> Rejected 400 ''Event is full''
   \<and> cancel 700 (userA\<lparr>points := 10\<rparr>) ''r1'' db1
     = (Success 200 ''Registration cancelled successfully'', db2)
   \<and> map_option rstatus (findById ''r1'' db2) = Some Cancelled
   \<and> map_option currentParticipants (events db2 ''E'') = Some 0
   \<and> map_option points (users db2 ''A'') = Some 10"
  by (simp add: route_defs sample_defs fun_upd_twist)




text \<open>
  C4. Every successful registration creation appends a registration with status
  \<open>confirmed\<close>, whose payment status is \<open>not-required\<close> exactly when the event's fee is
  zero and \<open>pending\<close> otherwise; the event's counter is one higher; the user has 10 points
  more; and the same request succeeds with the same answer when the QR generation fails
  (the registration then carries no QR code).
\<close>

theorem register_success_effects:
  assumes "register now newId qr u req s = (Success c m, s')"
      and "events s (eventId req) = Some e"
      and "users s (uid u) = Some u"
  shows "(\<exists>r. registrations s' \<noteq> [] \<and> last (registrations s') = r \<and>
              length (registrations s') = Suc (length (registrations s)) \<and>
              rid r = newId \<and> reg_user r = uid u \<and> reg_event r = eventId req \<and>
              rstatus r = Confirmed \<and>
              paymentStatus r = (if registrationFee e = 0 then NotRequired else PayPending) \<and>
              qrCode r = qr)
       \<and> (\<exists>e'. events s' (eventId req) = Some e' \<and>
              currentParticipants e' = currentParticipants e + 1)
       \<and> (\<exists>u'. users s' (uid u) = Some u' \<and> points u' = points u + 10)
       \<and> fst (register now newId None u req s) = Success c m"
  using assms
  by (auto simp: register_def isRegistrationOpen_def addParticipant_def event_save_def
                 addPoints_def save_user_def save_event_def create_def save_registration_def
                 pre_save_def new_attendance_def event_pre_save_counter Let_def last_map
           split: if_splits option.splits sum.splits)

theorem register_success_effects_witness:
  "register 500 ''r1'' None userA reqE db0
     = (Success 201 ''Successfully registered for the event'', db1)
   \<and> events db0 (eventId reqE) = Some ev1 \<and> users db0 (uid userA) = Some userA
   \<and> last (registrations db1) = regA
   \<and> map_option currentParticipants (events db1 (eventId reqE))
       = Some (currentParticipants ev1 + 1)
   \<and> map_option points (users db1 (uid userA)) = Some (points userA + 10)"
proof -
  have r: "register 500 ''r1'' None userA reqE db0
             = (Success 201 ''Successfully registered for the event'', db1)"
    by (simp add: route_defs sample_defs fun_upd_twist)
  have e: "events db0 (eventId reqE) = Some ev1" by (simp add: sample_defs)
  have u: "users db0 (uid userA) = Some userA" by (simp add: sample_defs)
  have l: "last (registrations db1) = regA" by (simp add: sample_defs)
  from register_success_effects [OF r e u] r e u l show ?thesis by auto
qed

section \<open>Check-in\<close>

lemmas checkin_defs =
  checkin_def perform_checkin_def already_checked_in_def qr_rejection_def parseQRData_def
  validateCheckInQR_def privileged_def reg_checkIn_def get_prop_def maxAge_def

lemmas sample_checkin_defs =
  no_parse_def no_conv_def qr_table_def self_req_def manual_req_def qr_req_def db3_def

lemmas eval_defs = checkin_defs route_defs sample_defs sample_checkin_defs

subsection \<open>Store lemmas\<close>

lemma find_map_replace:
  "find (\<lambda>x. rid x = i) xs = Some r \<Longrightarrow> rid r' = i \<Longrightarrow>
   find (\<lambda>x. rid x = i) (map (\<lambda>x. if rid x = i then r' else x) xs) = Some r'"
  by (induction xs) (auto split: if_splits)

lemma rid_pre_save: "rid (pre_save r) = rid r"
  by (simp add: pre_save_def split: counter.splits)

lemma pre_save_fields:
  "checkIn (pre_save r) = checkIn r" "rstatus (pre_save r) = rstatus r"
  "reg_event (pre_save r) = reg_event r" "reg_user (pre_save r) = reg_user r"
  "teamInfo (pre_save r) = teamInfo r"
  by (simp_all add: pre_save_def split: counter.splits)

lemma findById_rid: "findById i s = Some r \<Longrightarrow> rid r = i"
  by (auto simp: findById_def find_Some_iff)

subsection \<open>QR validation\<close>

lemma parse_success: "success (parseQRData P qs)"
  by (simp add: parseQRData_def Let_def split: option.splits json.splits)



lemma parse_data_nonnull: "data (parseQRData P qs) \<noteq> JNull"
  by (simp add: parseQRData_def Let_def split: option.splits json.splits)

lemma validate_nonnull:
  "d \<noteq> JNull \<Longrightarrow>
   validateCheckInQR conv now d ev =
     (if get_prop d ''type'' \<noteq> Some (JStr ''event-checkin'')
      then Invalid ''Invalid QR code type for check-in''
      else if get_prop d ''eventId'' \<noteq> Some (JStr ev)
      then Invalid ''QR code is for a different event''
      else if (case toNumber conv (get_prop d ''timestamp'') of
                 Some t \<Rightarrow> now - t > maxAge | None \<Rightarrow> False)
      then Invalid ''QR code has expired''
      else Valid (get_prop d ''registrationId'') (get_prop d ''eventId''))"
  by (cases d) (simp_all add: validateCheckInQR_def)






text \<open>
  \<open>parseQRData\<close> answers \<open>success: true\<close> on both of its paths and never hands
  \<open>null\<close> to the validation, so neither the route nor \<open>validateCheckInQR\<close> ever
  answers "Invalid QR code format".
\<close>

lemma qr_rejection_not_format:
  "qr_rejection P conv now m q ev rg \<noteq> Some ''Invalid QR code format''"
  by (auto simp: qr_rejection_def Let_def parse_success validate_nonnull [OF parse_data_nonnull]
           split: option.splits if_splits)

lemma perform_checkin_no_rejection: "fst (perform_checkin b now m loc u r s) \<noteq> Rejected c msg"
  by (auto simp: perform_checkin_def reg_checkIn_def Let_def split: binding.splits option.splits)

lemma checkin_never_invalid_format:
  "fst (checkin b P conv now u i req s) \<noteq> Rejected 400 ''Invalid QR code format''"
  using qr_rejection_not_format perform_checkin_no_rejection
  by (auto simp: checkin_def Let_def split: option.splits)




subsection \<open>Who may check in\<close>

text \<open>
  C6, as stated, fails: the owner of registration r1, who is neither the organizer nor a
  co-organizer nor an admin, asks for a \<open>self-checkin\<close> of their own registration and
  is rejected as not authorized.
\<close>

theorem self_checkin_counterexample:
  "reg_user regA = uid (userA\<lparr>points := 10\<rparr>)
   \<and> \<not> privileged (userA\<lparr>points := 10\<rparr>) (ev1\<lparr>currentParticipants := 1\<rparr>)
   \<and> (\<forall>b. checkin b no_parse no_conv 2100 (userA\<lparr>points := 10\<rparr>) ''r1'' self_req db1
           = (Rejected 403 ''Not authorized to check-in users for this event'', db1))"
  by (simp add: checkin_def privileged_def findById_def sample_defs)

text \<open>
  C6, amended. Check-in is for the event's organizer, its co-organizers and admins only,
  whatever the method: every request from anyone else, \<open>self-checkin\<close> by the owner
  included, is rejected as not authorized and changes nothing, and a request from one of
  the three is never rejected as not authorized.
\<close>

theorem checkin_needs_privilege:
  assumes "findById i s = Some r" and "events s (reg_event r) = Some e"
  shows "(\<not> privileged u e \<longrightarrow>
            checkin b P conv now u i req s
              = (Rejected 403 ''Not authorized to check-in users for this event'', s))
       \<and> (privileged u e \<longrightarrow>
            fst (checkin b P conv now u i req s)
              \<noteq> Rejected 403 ''Not authorized to check-in users for this event'')"
  using assms perform_checkin_no_rejection
  by (auto simp: checkin_def Let_def split: option.splits)

theorem self_checkin_witness:
  "findById ''r1'' db1 = Some regA \<and> reg_user regA = uid (userA\<lparr>points := 10\<rparr>)
   \<and> \<not> privileged (userA\<lparr>points := 10\<rparr>) (ev1\<lparr>currentParticipants := 1\<rparr>)
   \<and> (\<forall>b. checkin b no_parse no_conv 2100 (userA\<lparr>points := 10\<rparr>) ''r1'' self_req db1
           = (Rejected 403 ''Not authorized to check-in users for this event'', db1))
   \<and> privileged userOrg (ev1\<lparr>currentParticipants := 1\<rparr>)
   \<and> (\<forall>b. fst (checkin b no_parse no_conv 2100 userOrg ''r1'' self_req db1)
           \<noteq> Rejected 403 ''Not authorized to check-in users for this event'')"
proof -
  have f: "findById ''r1'' db1 = Some regA" by (simp add: findById_def sample_defs)
  have e: "events db1 (reg_event regA) = Some (ev1\<lparr>currentParticipants := 1\<rparr>)"
    by (simp add: sample_defs)
  have o: "reg_user regA = uid (userA\<lparr>points := 10\<rparr>)" by (simp add: sample_defs)
  have np: "\<not> privileged (userA\<lparr>points := 10\<rparr>) (ev1\<lparr>currentParticipants := 1\<rparr>)"
    by (simp add: privileged_def sample_defs)
  have p: "privileged userOrg (ev1\<lparr>currentParticipants := 1\<rparr>)"
    by (simp add: privileged_def sample_defs)
  from checkin_needs_privilege [OF f e, where u = "userA\<lparr>points := 10\<rparr>" and P = no_parse
                                     and conv = no_conv and now = 2100 and req = self_req]
       checkin_needs_privilege [OF f e, where u = userOrg and P = no_parse
                                     and conv = no_conv and now = 2100 and req = self_req]
       f o np p
  show ?thesis by simp
qed

subsection \<open>Checking in twice\<close>

text \<open>
  When \<open>checkIn\<close> is the stored record, no check-in call succeeds and none changes the
  store: the call \<open>registration.checkIn(...)\<close> is a call of an object.
\<close>

lemma checkin_path_never_succeeds:
  "fst (checkin AsPath P conv now u i req s) \<noteq> Success c m"
  by (auto simp: checkin_def perform_checkin_def Let_def split: option.splits)

lemma checkin_path_changes_nothing:
  "snd (checkin AsPath P conv now u i req s) = s"
  by (auto simp: checkin_def perform_checkin_def Let_def split: option.splits)

text \<open>
  When \<open>checkIn\<close> is the method, a successful call sets the flag on the function, which
  all registrations share: it leaves the stored record of the registration as it was, and
  from then on no check-in call succeeds, for this or any other registration.
\<close>

lemma checkin_method_sets_flag:
  "checkin AsMethod P conv now u i req s = (Success c m, s') \<Longrightarrow> isCheckedIn (checkIn_fn s')"
  by (auto simp: checkin_def perform_checkin_def reg_checkIn_def save_registration_def
                 save_user_def Let_def
           split: option.splits if_splits)

lemma checkin_method_after_flag:
  "isCheckedIn (checkIn_fn s) \<Longrightarrow> fst (checkin AsMethod P conv now u i req s) \<noteq> Success c m"
  by (auto simp: checkin_def already_checked_in_def Let_def split: option.splits)

lemma checkin_record_untouched:
  assumes "findById i s = Some r"
  shows "\<exists>r'. findById i (snd (checkin b P conv now u i req s)) = Some r' \<and>
              checkIn r' = checkIn r"
proof -
  have ri: "rid r = i" using assms by (rule findById_rid)
  have "find (\<lambda>x. rid x = i)
          (map (\<lambda>x. if rid x = i then pre_save (r\<lparr>rstatus := CheckedIn\<rparr>) else x)
             (registrations s)) = Some (pre_save (r\<lparr>rstatus := CheckedIn\<rparr>))"
    by (rule find_map_replace [OF assms [unfolded findById_def]]) (simp add: rid_pre_save ri)
  then show ?thesis using assms ri
    by (auto simp: checkin_def perform_checkin_def reg_checkIn_def save_registration_def
                   save_user_def findById_def rid_pre_save pre_save_fields Let_def
             split: option.splits binding.splits)
qed

text \<open>
  C7. The first authorized check-in of a registration does not do what the claim says,
  whichever of the two things \<open>registration.checkIn\<close> is.
  As the stored record: the organizer's manual check-in of A's registration r1, which is
  not checked in, does not succeed; the call of \<open>registration.checkIn\<close> throws, nothing
  is recorded and no points are awarded.
  As the method: the organizer's check-in of the team lead's registration t1 is answered
  with success, but the stored check-in record of t1 still says "not checked in"; and
  the first check-in call for B's registration t2, which was never checked in, is
  rejected with "User is already checked in", so B never gets the 20 points.
\<close>

theorem checkin_first_call:
  "findById ''r1'' db1 = Some regA \<and> \<not> isCheckedIn (checkIn regA)
   \<and> privileged userOrg (ev1\<lparr>currentParticipants := 1\<rparr>)
   \<and> checkin AsPath no_parse no_conv 2100 userOrg ''r1'' manual_req db1
       = (Fault ''TypeError'', db1)
   \<and> map_option points (users db1 ''A'') = Some 10
   \<and> checkin AsMethod no_parse no_conv 2100 userOrg ''t1'' manual_req dbT2
       = (Success 200 ''User checked in successfully'', dbT2c)
   \<and> map_option rstatus (findById ''t1'' dbT2c) = Some CheckedIn
   \<and> map_option (\<lambda>r. isCheckedIn (checkIn r)) (findById ''t1'' dbT2c) = Some False
   \<and> map_option (\<lambda>r. isCheckedIn (checkIn r)) (findById ''t2'' dbT2c) = Some False
   \<and> map_option rstatus (findById ''t2'' dbT2c) = Some Confirmed
   \<and> checkin AsMethod no_parse no_conv 2200 userOrg ''t2'' manual_req dbT2c
       = (Rejected 400 ''User is already checked in'', dbT2c)
   \<and> map_option points (users dbT2c ''B'') = Some 10"
  by (simp add: eval_defs dbT2_def dbT2c_def evT_def leadReg_def memberReg_def member_of_def
                userC_def userD_def fun_upd_twist)

section \<open>Session attendance\<close>

lemma update_first_names:
  "(\<And>x. sessionName (f x) = sessionName x) \<Longrightarrow>
   map sessionName (update_first P f xs) = map sessionName xs"
  by (induction xs) auto

lemma update_first_length [simp]: "length (update_first P f xs) = length xs"
  by (induction xs) auto

lemma update_first_count:
  "find P xs = Some y \<Longrightarrow>
   int (length (filter attended (update_first P f xs))) =
     int (length (filter attended xs)) - (if attended y then 1 else 0)
       + (if attended (f y) then 1 else 0)"
  by (induction xs) (auto split: if_splits)

lemma find_name_None: "find (\<lambda>x. sessionName x = n) xs = None \<longleftrightarrow> n \<notin> sessionName ` set xs"
  by (auto simp: find_None_iff)

subsection \<open>Counters that were never set\<close>

lemma counter_add_no_number: "no_number c \<Longrightarrow> counter_add c k = NaN"
  by (cases c) (simp_all add: no_number_def)

text \<open>
  One call on a document whose \<open>totalSessions\<close> is not a number: the counter is still
  not a number, and the hook leaves the percentage as it is.
\<close>

lemma mark_unset_step:
  assumes "no_number (totalSessions (attendance r))"
  shows "no_number (totalSessions (attendance (markSessionAttendance now n att r)))
       \<and> attendancePercentage (attendance (markSessionAttendance now n att r))
           = attendancePercentage (attendance r)"
proof (cases "find (\<lambda>x. sessionName x = n) (sessions (attendance r))")
  case None
  with assms show ?thesis
    by (simp add: markSessionAttendance_def Let_def pre_save_def counter_add_no_number
                  no_number_def)
next
  case (Some y)
  with assms show ?thesis
    by (cases "totalSessions (attendance r)")
       (simp_all add: markSessionAttendance_def Let_def pre_save_def no_number_def)
qed

text \<open>
  So on a registration as the routes create it, no sequence of calls ever changes the
  percentage: it stays at its default, 0.
\<close>

lemma mark_all_unset:
  "no_number (totalSessions (attendance r)) \<Longrightarrow>
   no_number (totalSessions (attendance (mark_all calls r)))
   \<and> attendancePercentage (attendance (mark_all calls r))
       = attendancePercentage (attendance r)"
proof (induction calls arbitrary: r)
  case Nil
  then show ?case by simp
next
  case (Cons c calls)
  obtain now n att where c: "c = (now, n, att)" by (cases c) auto
  from mark_unset_step [OF Cons.prems, of now n att] Cons.IH c show ?case by simp
qed

lemma mark_all_new_attendance:
  "attendance r = new_attendance \<Longrightarrow>
   attendancePercentage (attendance (mark_all calls r)) = Percent 0
   \<and> no_number (totalSessions (attendance (mark_all calls r)))"
  using mark_all_unset [of r calls] by (simp add: new_attendance_def no_number_def)

subsection \<open>Counters that are numbers\<close>

text \<open>
  Had the counters been set, the relation would hold. One call on a document whose
  counters are numbers that agree with its session list leaves such a document, with the
  hook's percentage, and adds the session's name.
\<close>

lemma mark_step:
  assumes ok: "att_ok (attendance r)"
  shows "pct_ok (markSessionAttendance now n att r)
       \<and> session_names (markSessionAttendance now n att r) = insert n (session_names r)"
proof -
  define a where "a = attendance r"
  have oka: "att_ok a" using ok by (simp add: a_def)
  have names: "session_names r = sessionName ` set (sessions a)"
    by (simp add: a_def session_names_def)
  show ?thesis
  proof (cases "find (\<lambda>x. sessionName x = n) (sessions a)")
    case None
    then have nin: "n \<notin> sessionName ` set (sessions a)" by (simp add: find_name_None)
    from None oka nin show ?thesis
      unfolding names
      by (auto simp: markSessionAttendance_def a_def [symmetric] Let_def pre_save_def pct_ok_def
                     att_ok_def session_names_def)
  next
    case (Some y)
    then have yin: "n \<in> sessionName ` set (sessions a)"
      by (auto simp: find_Some_iff)
    have ne: "sessions a \<noteq> []" using Some by auto
    then have tot: "0 < int (length (sessions a))" by simp
    note cnt = update_first_count [OF Some, where f = "\<lambda>x. x\<lparr>attended := att,
                  sessionCheckIn := (if att then Some now else sessionCheckIn x)\<rparr>"]
    note nm = update_first_names [where P = "\<lambda>x. sessionName x = n" and xs = "sessions a"
               and f = "\<lambda>x. x\<lparr>attended := att,
                  sessionCheckIn := (if att then Some now else sessionCheckIn x)\<rparr>"]
    have nm': "map sessionName (update_first (\<lambda>x. sessionName x = n)
                 (\<lambda>x. x\<lparr>attended := att, sessionCheckIn := (if att then Some now else sessionCheckIn x)\<rparr>)
                 (sessions a)) = map sessionName (sessions a)"
      by (rule nm) simp
    have set': "sessionName ` set (update_first (\<lambda>x. sessionName x = n)
                 (\<lambda>x. x\<lparr>attended := att, sessionCheckIn := (if att then Some now else sessionCheckIn x)\<rparr>)
                 (sessions a)) = sessionName ` set (sessions a)"
      using arg_cong [OF nm', of set] by simp
    have ne': "update_first (\<lambda>x. sessionName x = n)
                 (\<lambda>x. x\<lparr>attended := att, sessionCheckIn := (if att then Some now else sessionCheckIn x)\<rparr>)
                 (sessions a) \<noteq> []"
      using ne by (cases "sessions a") auto
    from Some oka tot yin cnt nm' set' ne ne' show ?thesis
      unfolding names
      by (auto simp: markSessionAttendance_def a_def [symmetric] Let_def pre_save_def pct_ok_def
                     att_ok_def session_names_def insert_absorb)
  qed
qed

lemma mark_all_inv:
  "pct_ok r \<Longrightarrow>
   pct_ok (mark_all calls r) \<and>
   session_names (mark_all calls r) = session_names r \<union> (\<lambda>(t, n, b). n) ` set calls"
proof (induction calls arbitrary: r)
  case Nil
  then show ?case by simp
next
  case (Cons c calls)
  obtain now n att where c: "c = (now, n, att)" by (cases c) auto
  from Cons.prems have "att_ok (attendance r)" by (simp add: pct_ok_def)
  from mark_step [OF this, of now n att]
  have s: "pct_ok (markSessionAttendance now n att r)"
    "session_names (markSessionAttendance now n att r) = insert n (session_names r)" by auto
  from Cons.IH [OF s(1)] s(2) c show ?case by auto
qed

lemma mark_again_attended:
  assumes p: "pct_ok r"
      and x: "x \<in> set (sessions (attendance r))" "sessionName x = n" "attended x"
  shows "attendedSessions (attendance (markSessionAttendance now n True r))
           = attendedSessions (attendance r)
       \<and> totalSessions (attendance (markSessionAttendance now n True r))
           = totalSessions (attendance r)
       \<and> attendancePercentage (attendance (markSessionAttendance now n True r))
           = attendancePercentage (attendance r)"
proof -
  define a where "a = attendance r"
  from p have ok: "att_ok a" "sessions a \<noteq> []"
    "attendancePercentage a =
       Percent (of_int (int (length (filter attended (sessions a))))
                / of_int (int (length (sessions a))) * 100)"
    by (auto simp: pct_ok_def a_def)
  have d: "distinct (map sessionName (sessions a))" using ok(1) by (simp add: att_ok_def)
  obtain y where y: "find (\<lambda>z. sessionName z = n) (sessions a) = Some y"
    using x by (cases "find (\<lambda>z. sessionName z = n) (sessions a)")
               (auto simp: find_None_iff a_def)
  then have "y \<in> set (sessions a)" "sessionName y = n" by (auto simp: find_Some_iff)
  with d x have "y = x" by (auto simp: distinct_map inj_on_def a_def)
  with x have ay: "attended y" by simp
  have cnt: "totalSessions a = Count (int (length (sessions a)))"
    "attendedSessions a = Count (int (length (filter attended (sessions a))))"
    using ok(1) by (simp_all add: att_ok_def)
  have pos: "0 < int (length (sessions a))" using ok(2) by simp
  show ?thesis using y ay ok(3) cnt pos
    by (simp add: markSessionAttendance_def Let_def pre_save_def a_def [symmetric])
qed

text \<open>
  On a registration whose counters are 0 and whose session list is empty, after any
  non-empty sequence of calls the percentage is \<open>attendedSessions / totalSessions * 100\<close>,
  \<open>totalSessions\<close> is the number of distinct session names in the calls and
  \<open>attendedSessions\<close> the number of sessions marked attended, and recording "attended"
  again for a session marked attended changes neither counter nor the percentage.
\<close>

lemma attendance_percentage_from_zero:
  assumes z: "sessions (attendance r) = []" "totalSessions (attendance r) = Count 0"
             "attendedSessions (attendance r) = Count 0"
      and ne: "calls \<noteq> []"
  shows "\<exists>t k. totalSessions (attendance (mark_all calls r)) = Count t
      \<and> attendedSessions (attendance (mark_all calls r)) = Count k
      \<and> 0 < t
      \<and> attendancePercentage (attendance (mark_all calls r))
          = Percent (of_int k / of_int t * 100)
      \<and> t = int (card ((\<lambda>(t, n, b). n) ` set calls))
      \<and> k = int (length (filter attended (sessions (attendance (mark_all calls r)))))
      \<and> (\<forall>now n. (\<exists>x \<in> set (sessions (attendance (mark_all calls r))).
                      sessionName x = n \<and> attended x) \<longrightarrow>
            attendance (markSessionAttendance now n True (mark_all calls r))
              \<lparr>sessions := []\<rparr>
            = attendance (mark_all calls r) \<lparr>sessions := []\<rparr>)"
proof -
  obtain c cs where calls: "calls = c # cs" using ne by (cases calls) auto
  obtain now0 n0 att0 where c: "c = (now0, n0, att0)" by (cases c) auto
  define r1 where "r1 = markSessionAttendance now0 n0 att0 r"
  have "att_ok (attendance r)" using z by (simp add: att_ok_def)
  from mark_step [OF this, of now0 n0 att0]
  have s1: "pct_ok r1" "session_names r1 = {n0}"
    using z by (auto simp: r1_def session_names_def)
  from mark_all_inv [OF s1(1), of cs] s1(2)
  have fin: "pct_ok (mark_all calls r)"
    "session_names (mark_all calls r) = (\<lambda>(t, n, b). n) ` set calls"
    by (auto simp: calls c r1_def)
  define a where "a = attendance (mark_all calls r)"
  from fin(1) have a: "att_ok a" "sessions a \<noteq> []"
    "attendancePercentage a =
       Percent (of_int (int (length (filter attended (sessions a))))
                / of_int (int (length (sessions a))) * 100)"
    by (auto simp: pct_ok_def a_def)
  have names: "sessionName ` set (sessions a) = (\<lambda>(t, n, b). n) ` set calls"
    using fin(2) by (simp add: session_names_def a_def)
  have d: "distinct (map sessionName (sessions a))" using a(1) by (simp add: att_ok_def)
  have "card (sessionName ` set (sessions a)) = length (sessions a)"
    using distinct_card [OF d] by simp
  then have tot: "int (length (sessions a)) = int (card ((\<lambda>(t, n, b). n) ` set calls))"
    using names by simp
  have cnt: "totalSessions a = Count (int (length (sessions a)))"
    "attendedSessions a = Count (int (length (filter attended (sessions a))))"
    using a(1) by (simp_all add: att_ok_def)
  have pos: "0 < int (length (sessions a))" using a(2) by simp
  have again: "attendance (markSessionAttendance now n True (mark_all calls r))
              \<lparr>sessions := []\<rparr> = a\<lparr>sessions := []\<rparr>"
    if "\<exists>x \<in> set (sessions a). sessionName x = n \<and> attended x" for now n
  proof -
    from that obtain x where x: "x \<in> set (sessions (attendance (mark_all calls r)))"
      "sessionName x = n" "attended x" by (auto simp: a_def)
    from mark_again_attended [OF fin(1) x, of now] show ?thesis
      by (simp add: a_def attendance.equality)
  qed
  show ?thesis unfolding a_def [symmetric] using cnt pos a(3) tot again by blast
qed

subsection \<open>The documents the routes create\<close>

text \<open>
  C9. The relation of the claim does not hold on the documents the routes create. A's
  registration has the attendance record of a new document, without counters. After one
  call that records the session "keynote" as attended, the session is in the list, but
  \<open>totalSessions\<close> and \<open>attendedSessions\<close> are NaN and the percentage is still 0, where
  one session attended out of one is 100. After the seven calls of the sample sequence,
  which leave three sessions of which two are attended, the counters are NaN and the
  percentage is 0, where two out of three is 200/3.
\<close>

theorem attendance_percentage_unset:
  "attendance regA = new_attendance
   \<and> sessions (attendance (markSessionAttendance 1 ''keynote'' True regA))
       = [\<lparr>sessionName = ''keynote'', attended = True, sessionCheckIn = Some 1\<rparr>]
   \<and> totalSessions (attendance (markSessionAttendance 1 ''keynote'' True regA)) = NaN
   \<and> attendedSessions (attendance (markSessionAttendance 1 ''keynote'' True regA)) = NaN
   \<and> attendancePercentage (attendance (markSessionAttendance 1 ''keynote'' True regA))
       = Percent 0
   \<and> Percent 0 \<noteq> Percent (of_int 1 / of_int 1 * 100)
   \<and> map (\<lambda>x. (sessionName x, attended x)) (sessions (attendance (mark_all calls0 regA)))
       = [(''keynote'', True), (''lab'', True), (''panel'', False)]
   \<and> totalSessions (attendance (mark_all calls0 regA)) = NaN
   \<and> attendedSessions (attendance (mark_all calls0 regA)) = NaN
   \<and> attendancePercentage (attendance (mark_all calls0 regA)) = Percent 0
   \<and> Percent 0 \<noteq> Percent (of_int 2 / of_int 3 * 100)"
proof -
  have one: "attendance (markSessionAttendance 1 ''keynote'' True regA)
      = \<lparr>sessions = [\<lparr>sessionName = ''keynote'', attended = True, sessionCheckIn = Some 1\<rparr>],
         totalSessions = NaN, attendedSessions = NaN, attendancePercentage = Percent 0\<rparr>"
    by (simp add: markSessionAttendance_def pre_save_def regA_def new_attendance_def Let_def)
  have seven: "map (\<lambda>x. (sessionName x, attended x)) (sessions (attendance (mark_all calls0 regA)))
       = [(''keynote'', True), (''lab'', True), (''panel'', False)]"
    "totalSessions (attendance (mark_all calls0 regA)) = NaN"
    "attendedSessions (attendance (mark_all calls0 regA)) = NaN"
    "attendancePercentage (attendance (mark_all calls0 regA)) = Percent 0"
    by code_simp+
  have new: "attendance regA = new_attendance" by (simp add: regA_def)
  from one seven new show ?thesis by simp
qed

section \<open>Certificates\<close>

lemma unique_code:
  "distinct (map verificationCode cs) \<Longrightarrow> c \<in> set cs \<Longrightarrow> x \<in> set cs \<Longrightarrow>
   verificationCode x = verificationCode c \<Longrightarrow> x = c"
  by (auto simp: distinct_map inj_on_def)

text \<open>
  C10. The verification lookup returns only certificates whose status is \<open>active\<close>.
  With verification codes unique in the collection (the schema's unique index): after
  the revocation of a certificate, which leaves its code as it is, verifying that code
  returns nothing; a certificate whose status is \<open>revoked\<close>, \<open>expired\<close> or \<open>pending\<close>
  does not verify; an active one does.
\<close>

theorem verify_only_active:
  assumes d: "distinct (map verificationCode cs)" and c: "c \<in> set cs"
  shows "(\<forall>vc x. verifyCertificate vc cs = Some x \<longrightarrow>
            cstatus x = CertActive \<and> verificationCode x = vc)
       \<and> verifyCertificate (verificationCode c) (revoke now by reason c cs) = None
       \<and> (cstatus c \<noteq> CertActive \<longrightarrow> verifyCertificate (verificationCode c) cs = None)
       \<and> (cstatus c = CertActive \<longrightarrow> verifyCertificate (verificationCode c) cs = Some c)"
proof -
  have a: "\<forall>vc x. verifyCertificate vc cs = Some x \<longrightarrow>
            cstatus x = CertActive \<and> verificationCode x = vc"
    by (auto simp: verifyCertificate_def find_Some_iff)
  have b: "verifyCertificate (verificationCode c) (revoke now by reason c cs) = None"
    using unique_code [OF d c]
    by (auto simp: verifyCertificate_def revoke_def save_certificate_def find_None_iff)
  have e: "verifyCertificate (verificationCode c) cs = None" if "cstatus c \<noteq> CertActive"
    using unique_code [OF d c] that by (auto simp: verifyCertificate_def find_None_iff)
  have g: "verifyCertificate (verificationCode c) cs = Some c" if act: "cstatus c = CertActive"
  proof -
    have "\<exists>x. verifyCertificate (verificationCode c) cs = Some x"
      using c act by (cases "verifyCertificate (verificationCode c) cs")
                      (auto simp: verifyCertificate_def find_None_iff)
    then obtain x where x: "verifyCertificate (verificationCode c) cs = Some x" by blast
    then have "x \<in> set cs" "verificationCode x = verificationCode c"
      by (auto simp: verifyCertificate_def find_Some_iff)
    with unique_code [OF d c] x show ?thesis by simp
  qed
  show ?thesis using a b e g by blast
qed

theorem verify_only_active_witness:
  "distinct (map verificationCode certs0) \<and> hd certs0 \<in> set certs0
   \<and> verifyCertificate ''VC1'' certs0 = Some (hd certs0)
   \<and> verifyCertificate ''VC1'' (revoke 5000 ''adm'' ''issued in error'' (hd certs0) certs0) = None
   \<and> verifyCertificate ''VC2'' certs0 = None \<and> verifyCertificate ''VC3'' certs0 = None"
proof -
  have d: "distinct (map verificationCode certs0)" by (simp add: certs0_def)
  have c: "hd certs0 \<in> set certs0" by (simp add: certs0_def)
  have v: "verificationCode (hd certs0) = ''VC1''" "cstatus (hd certs0) = CertActive"
    by (simp_all add: certs0_def)
  have o: "verifyCertificate ''VC2'' certs0 = None" "verifyCertificate ''VC3'' certs0 = None"
    by (simp_all add: certs0_def verifyCertificate_def)
  from verify_only_active [OF d c, of 5000 "''adm''" "''issued in error''"] v d c o
  show ?thesis by simp
qed


section \<open>Teams\<close>



subsection \<open>Lists of registrations\<close>










subsection \<open>Joining a team\<close>





text \<open>
  A successful join creates a registration the way the registration route does:
  confirmed, with the fee-dependent payment status, the counter one higher and 10 points
  for the user.
\<close>

lemma last_map_fresh:
  "lead \<in> set rs \<Longrightarrow> rid m \<notin> rid ` set rs \<Longrightarrow>
   last (map (\<lambda>x. if rid x = rid lead then l' else x) (rs @ [m])) = m"
  by auto

lemma addParticipant_Inr:
  "addParticipant e = Inr e' \<Longrightarrow> e' = e\<lparr>currentParticipants := currentParticipants e + 1\<rparr>"
  by (auto simp: addParticipant_def event_save_def split: if_splits option.splits)

lemma join_team_success_effects:
  assumes j: "join_team newId u req s = (Success c m, s')"
      and e: "events s (join_eventId req) = Some e"
      and fresh: "newId \<notin> rid ` set (registrations s)"
  shows "(\<exists>r. registrations s' \<noteq> [] \<and> last (registrations s') = r \<and>
              rid r = newId \<and> reg_user r = uid u \<and> reg_event r = join_eventId req \<and>
              rstatus r = Confirmed \<and>
              paymentStatus r = (if registrationFee e = 0 then NotRequired else PayPending))
       \<and> (\<exists>e'. events s' (join_eventId req) = Some e' \<and>
              currentParticipants e' = currentParticipants e + 1)
       \<and> (\<exists>u'. users s' (uid u) = Some u' \<and> points u' = points u + 10)"
proof -
  from j obtain lead where l: "findTeamLead (join_teamCode req) (join_eventId req) s = Some lead"
    by (cases "findTeamLead (join_teamCode req) (join_eventId req) s")
       (auto simp: join_team_def)
  then have lin: "lead \<in> set (registrations s)"
    by (auto simp: findTeamLead_def find_Some_iff)
  from j e l lin fresh show ?thesis
    by (auto simp: join_team_def addTeamMember_def addPoints_def save_user_def save_event_def
                   create_def save_registration_def pre_save_def new_attendance_def
                   Let_def last_map_fresh
             simp del: map_append last_snoc
             dest!: addParticipant_Inr
             split: if_splits option.splits sum.splits)
qed



subsection \<open>The other routes\<close>




subsection \<open>Runs of requests\<close>








end
